theory Spec2Isabelle
  imports Main
begin

section \<open>Python values, exceptions and control flow\<close>

text \<open>
  The module \<^verbatim>\<open>s3_minio.py\<close> is a wrapper around three collaborators that are not
  part of the repository: the object-storage SDK (\<^verbatim>\<open>boto3\<close>), the operating system
  (\<^verbatim>\<open>os\<close>, \<^verbatim>\<open>shutil\<close>) and the image library (\<^verbatim>\<open>PIL\<close>). The wrapper itself is
  control flow: loops, \<^verbatim>\<open>try\<close>/\<^verbatim>\<open>except\<close> blocks and early returns. The model keeps
  that control flow as it is written and represents the collaborators by an explicit
  environment (the record \<open>world\<close> below).

  Exception classes: only the part of Python's hierarchy that the handlers of the
  module can tell apart. \<open>KeyboardInterrupt\<close> and \<open>SystemExit\<close> derive from
  \<^verbatim>\<open>BaseException\<close> only, everything else derives from \<^verbatim>\<open>Exception\<close>.
  \<open>ClientError code\<close> is \<^verbatim>\<open>botocore.exceptions.ClientError\<close> with the error code of
  the response (\<^verbatim>\<open>"404"\<close>, \<^verbatim>\<open>"403"\<close>, ...); \<open>EndpointConnectionError\<close> is the
  \<^verbatim>\<open>BotoCoreError\<close> raised when the endpoint cannot be reached.
\<close>

datatype pyclass =
    KeyboardInterrupt
  | SystemExit
  | ValueError
  | TypeError
  | ImportError
  | ModuleNotFoundError
  | OSError
  | FileNotFoundError
  | NotADirectoryError
  | PermissionError
  | UnidentifiedImageError
  | ClientError string
  | EndpointConnectionError
  | NoCredentialsError
  | S3UploadFailedError

text \<open>
  An exception object: its class, the text \<^verbatim>\<open>str(exc)\<close> and the \<^verbatim>\<open>__cause__\<close> that
  \<^verbatim>\<open>raise ... from exc\<close> attaches.
\<close>

datatype exc = Exc (exc_class: pyclass) (exc_str: string) (exc_cause: "exc option")

text \<open>\<^verbatim>\<open>except Exception\<close> catches every class but the two \<^verbatim>\<open>BaseException\<close>-only ones.\<close>

fun is_Exception :: "pyclass \<Rightarrow> bool" where
  "is_Exception KeyboardInterrupt = False"
| "is_Exception SystemExit = False"
| "is_Exception _ = True"


text \<open>\<^verbatim>\<open>except ImportError\<close> catches \<^verbatim>\<open>ImportError\<close> and its subclass.\<close>

fun is_ImportError :: "pyclass \<Rightarrow> bool" where
  "is_ImportError ImportError = True"
| "is_ImportError ModuleNotFoundError = True"
| "is_ImportError _ = False"

type_synonym bytes = string

text \<open>The values the public methods return.\<close>

datatype pyval = PyNone | PyBool bool | PyStr string | ContentFile bytes

text \<open>
  What one pass through a loop body does when it raises nothing: it reaches the end of
  the body (\<open>Next\<close>, the loop goes on) or executes a \<^verbatim>\<open>return\<close>.
\<close>

datatype 'a flow = Next | Return 'a

section \<open>The environment: bucket, file system, faults, trace\<close>

text \<open>
  Every call into a collaborator is a value of type \<open>call\<close>. The environment logs each
  call it receives in \<open>trace\<close> and decides through \<open>fault\<close> whether the call raises
  (network failure, authorisation failure, permission error, ...).
\<close>

datatype call =
    UploadFile string string string
  | DeleteObject string string
  | HeadObject string string
  | GeneratePresignedUrl string string string nat
  | OsRemove string
  | OsListdir string
  | ShutilRmtree string
  | ImportContentFile
  | ImageOpen nat
  | ImageConvert string
  | ImageSave string nat

text \<open>
  An in-memory image file (a Django \<^verbatim>\<open>File\<close>): its \<^verbatim>\<open>name\<close> attribute, which may be
  \<^verbatim>\<open>None\<close>, and its content.
\<close>

record image =
  image_name :: "string option"
  image_data :: bytes

text \<open>A decoded \<^verbatim>\<open>PIL.Image\<close>: its mode and its pixel data.\<close>

datatype pil_image = PilImage (pil_mode: string) (pil_pixels: bytes)

text \<open>
  \<^item> \<open>bucket_objects\<close>: the content of the storage backend, by bucket and key;
  \<^item> \<open>fs_files\<close>, \<open>fs_dirs\<close>: the local file system, paths taken literally (POSIX
    separators, no symbolic links, no normalisation of \<^verbatim>\<open>..\<close>);
  \<^item> \<open>fault\<close>: the exception, if any, with which a call fails;
  \<^item> \<open>trace\<close>: the calls made so far, oldest first;
  \<^item> \<open>stdout\<close>: what \<^verbatim>\<open>print\<close> has written, one entry per call of \<^verbatim>\<open>print\<close>;
  \<^item> \<open>heap\<close>: the image objects, by reference (the converter assigns to
    \<^verbatim>\<open>image.name\<close>);
  \<^item> \<open>pil_decode\<close>, \<open>pil_convert\<close>, \<open>pil_encode\<close>: the codec of the image library,
    taken as parameters.
\<close>

record world =
  bucket_objects :: "string \<times> string \<Rightarrow> bytes option"
  fs_files :: "(string \<times> bytes) list"
  fs_dirs :: "string list"
  fault :: "call \<Rightarrow> exc option"
  trace :: "call list"
  stdout :: "string list"
  heap :: "nat \<Rightarrow> image"
  pil_decode :: "bytes \<Rightarrow> pil_image"
  pil_convert :: "string \<Rightarrow> pil_image \<Rightarrow> pil_image"
  pil_encode :: "string \<Rightarrow> nat \<Rightarrow> pil_image \<Rightarrow> bytes"

type_synonym 'a result = "(exc + 'a) \<times> world"

text \<open>Sequencing: the second statement runs only if the first raised nothing.\<close>

definition and_then :: "'a result \<Rightarrow> ('a \<Rightarrow> world \<Rightarrow> 'b result) \<Rightarrow> 'b result" where
  "and_then r f = (case r of (Inl e, w) \<Rightarrow> (Inl e, w) | (Inr x, w) \<Rightarrow> f x w)"

text \<open>
  \<^verbatim>\<open>try: ... except Exception as exc: raise ValueError(msg(exc)) from exc\<close>: an exception
  of a class under \<^verbatim>\<open>Exception\<close> is replaced by a \<open>ValueError\<close> whose cause it is, any
  other one passes through.
\<close>

definition except_Exception_raise_ValueError ::
    "(exc \<Rightarrow> string) \<Rightarrow> 'a result \<Rightarrow> 'a result" where
  "except_Exception_raise_ValueError msg r =
     (case r of
        (Inl e, w) \<Rightarrow>
          if is_Exception (exc_class e) then (Inl (Exc ValueError (msg e) (Some e)), w)
          else (Inl e, w)
      | (Inr x, w) \<Rightarrow> (Inr x, w))"

text \<open>
  \<^verbatim>\<open>for i in args: body\<close> as the last statement of a function: a \<^verbatim>\<open>return\<close> or an
  exception in the body ends the call, the end of the body moves on to the next element,
  and when the sequence is exhausted the function falls off its end and returns
  \<^verbatim>\<open>None\<close>.
\<close>

fun for_each ::
    "('a \<Rightarrow> world \<Rightarrow> pyval flow result) \<Rightarrow> 'a list \<Rightarrow> world \<Rightarrow> pyval result" where
  "for_each body [] w = (Inr PyNone, w)"
| "for_each body (i # rest) w =
     (case body i w of
        (Inl e, w') \<Rightarrow> (Inl e, w')
      | (Inr (Return v), w') \<Rightarrow> (Inr v, w')
      | (Inr Next, w') \<Rightarrow> for_each body rest w')"

subsection \<open>Printing\<close>

definition str_bool :: "bool \<Rightarrow> string" where
  "str_bool b = (if b then ''True'' else ''False'')"

fun join_sp :: "string list \<Rightarrow> string" where
  "join_sp [] = []"
| "join_sp [s] = s"
| "join_sp (s # t # ss) = s @ '' '' @ join_sp (t # ss)"

text \<open>\<^verbatim>\<open>print(a, b, ...)\<close>: the arguments separated by a space, then a newline.\<close>

definition py_print :: "string list \<Rightarrow> world \<Rightarrow> world" where
  "py_print args w = w\<lparr>stdout := stdout w @ [join_sp args @ [CHR 0x0A]]\<rparr>"

subsection \<open>The local file system\<close>

text \<open>
  \<^verbatim>\<open>posixpath.dirname\<close>: the text up to and including the last separator, with trailing
  separators removed unless the text consists of separators only.
\<close>

definition rstrip_sep :: "string \<Rightarrow> string" where
  "rstrip_sep s = rev (dropWhile (\<lambda>c. c = CHR ''/'') (rev s))"

definition dirname :: "string \<Rightarrow> string" where
  "dirname p =
     (let head = rev (dropWhile (\<lambda>c. c \<noteq> CHR ''/'') (rev p))
      in if head \<noteq> [] \<and> \<not> list_all (\<lambda>c. c = CHR ''/'') head then rstrip_sep head else head)"

definition os_path_exists :: "world \<Rightarrow> string \<Rightarrow> bool" where
  "os_path_exists w p = (p \<in> set (map fst (fs_files w)) \<or> p \<in> set (fs_dirs w))"

text \<open>The name under which \<open>p\<close> is an entry of directory \<open>d\<close>, if it is one.\<close>

definition child_name :: "string \<Rightarrow> string \<Rightarrow> string option" where
  "child_name d p =
     (let n = drop (length d + 1) p
      in if take (length d + 1) p = d @ ''/'' \<and> n \<noteq> [] \<and> CHR ''/'' \<notin> set n
         then Some n else None)"

definition dir_entries :: "world \<Rightarrow> string \<Rightarrow> string list" where
  "dir_entries w d = List.map_filter (child_name d) (map fst (fs_files w) @ fs_dirs w)"

text \<open>Whether \<open>p\<close> is \<open>d\<close> itself or lies below it.\<close>

definition under :: "string \<Rightarrow> string \<Rightarrow> bool" where
  "under d p = (p = d \<or> take (length d + 1) p = d @ ''/'')"

definition log_call :: "call \<Rightarrow> world \<Rightarrow> world" where
  "log_call c w = w\<lparr>trace := trace w @ [c]\<rparr>"

definition os_remove :: "string \<Rightarrow> world \<Rightarrow> unit result" where
  "os_remove p w =
     (let w1 = log_call (OsRemove p) w in
      case fault w (OsRemove p) of
        Some e \<Rightarrow> (Inl e, w1)
      | None \<Rightarrow>
          if p \<in> set (map fst (fs_files w))
          then (Inr (), w1\<lparr>fs_files := filter (\<lambda>(q, _). q \<noteq> p) (fs_files w)\<rparr>)
          else (Inl (Exc FileNotFoundError (''[Errno 2] No such file or directory: '' @ p) None), w1))"

definition os_listdir :: "string \<Rightarrow> world \<Rightarrow> string list result" where
  "os_listdir d w =
     (let w1 = log_call (OsListdir d) w in
      case fault w (OsListdir d) of
        Some e \<Rightarrow> (Inl e, w1)
      | None \<Rightarrow>
          if d \<in> set (fs_dirs w) then (Inr (dir_entries w d), w1)
          else if d \<in> set (map fst (fs_files w))
          then (Inl (Exc NotADirectoryError (''[Errno 20] Not a directory: '' @ d) None), w1)
          else (Inl (Exc FileNotFoundError (''[Errno 2] No such file or directory: '' @ d) None), w1))"

definition shutil_rmtree :: "string \<Rightarrow> world \<Rightarrow> unit result" where
  "shutil_rmtree d w =
     (let w1 = log_call (ShutilRmtree d) w in
      case fault w (ShutilRmtree d) of
        Some e \<Rightarrow> (Inl e, w1)
      | None \<Rightarrow>
          if d \<in> set (fs_dirs w)
          then (Inr (), w1\<lparr>fs_files := filter (\<lambda>(q, _). \<not> under d q) (fs_files w),
                            fs_dirs := filter (\<lambda>q. \<not> under d q) (fs_dirs w)\<rparr>)
          else (Inl (Exc NotADirectoryError (''[Errno 20] Not a directory: '' @ d) None), w1))"

subsection \<open>The storage SDK\<close>

text \<open>
  The client that \<^verbatim>\<open>boto3.client("s3", ...)\<close> returns: its configuration and the
  function that builds a presigned URL from the client method, bucket, key and expiry
  (the signing algorithm belongs to the SDK and is a parameter here).
\<close>

record client =
  endpoint_url :: string
  aws_access_key_id :: string
  aws_secret_access_key :: string
  presign :: "string \<Rightarrow> string \<Rightarrow> string \<Rightarrow> nat \<Rightarrow> string"

definition upload_file :: "string \<Rightarrow> string \<Rightarrow> string \<Rightarrow> world \<Rightarrow> unit result" where
  "upload_file filename bucket key w =
     (let w1 = log_call (UploadFile filename bucket key) w in
      case fault w (UploadFile filename bucket key) of
        Some e \<Rightarrow> (Inl e, w1)
      | None \<Rightarrow>
          (case map_of (fs_files w) filename of
             None \<Rightarrow>
               (Inl (Exc FileNotFoundError
                      (''[Errno 2] No such file or directory: '' @ filename) None), w1)
           | Some content \<Rightarrow>
               (Inr (), w1\<lparr>bucket_objects := (bucket_objects w)((bucket, key) \<mapsto> content)\<rparr>)))"

definition delete_object :: "string \<Rightarrow> string \<Rightarrow> world \<Rightarrow> unit result" where
  "delete_object bucket key w =
     (let w1 = log_call (DeleteObject bucket key) w in
      case fault w (DeleteObject bucket key) of
        Some e \<Rightarrow> (Inl e, w1)
      | None \<Rightarrow> (Inr (), w1\<lparr>bucket_objects := (bucket_objects w)((bucket, key) := None)\<rparr>))"



section \<open>The class \<^verbatim>\<open>S3Minio\<close>\<close>

record S3Minio =
  s3 :: client
  s3_bucket_name :: string

text \<open>
  \<^verbatim>\<open>__init__\<close>: prints the configuration (credentials included) and stores the client
  and the bucket name. The signing function of the client is the SDK's.
\<close>

definition init ::
    "(string \<Rightarrow> string \<Rightarrow> string \<Rightarrow> nat \<Rightarrow> string) \<Rightarrow> string \<Rightarrow> string \<Rightarrow> string \<Rightarrow> string
      \<Rightarrow> world \<Rightarrow> S3Minio \<times> world" where
  "init sdk_presign endpoint access_key_id secret_access_key bucket_name w =
     (let w1 = py_print
                 [''Initializing S3Minio with endpoint: '' @ endpoint @ '', ''
                  @ ''access_key_id: '' @ access_key_id @ '', ''
                  @ ''secret_access_key: '' @ secret_access_key @ '', ''
                  @ ''bucket_name: '' @ bucket_name] w
      in (\<lparr>s3 = \<lparr>endpoint_url = endpoint, aws_access_key_id = access_key_id,
                 aws_secret_access_key = secret_access_key, presign = sdk_presign\<rparr>,
           s3_bucket_name = bucket_name\<rparr>, w1))"

subsection \<open>\<^verbatim>\<open>upload\<close>\<close>

text \<open>The inner \<^verbatim>\<open>try\<close> block of \<^verbatim>\<open>upload\<close> (lines 75 to 82).\<close>

definition upload_transfer :: "S3Minio \<Rightarrow> string \<Rightarrow> string \<Rightarrow> world \<Rightarrow> unit result" where
  "upload_transfer self path file_direct w =
     (let w1 = py_print
                 [''File '' @ file_direct @ [CHR 0x0A],
                  ''exists: '' @ str_bool (os_path_exists w file_direct) @ [CHR 0x0A],
                  ''Bucket: '' @ s3_bucket_name self @ [CHR 0x0A],
                  ''Path: '' @ path] w
      in and_then (upload_file file_direct (s3_bucket_name self) path w1)
           (\<lambda>_ w2. (Inr (),
              py_print [''File '' @ file_direct @ '' uploaded successfully to MinIO.''] w2)))"

text \<open>
  Lines 87 to 93: remove the staging file, remove its directory if that exists and is
  empty, return \<^verbatim>\<open>True\<close>. \<^verbatim>\<open>and\<close> is short-circuit: the directory is listed only if
  it exists.
\<close>

definition upload_cleanup :: "string \<Rightarrow> world \<Rightarrow> pyval flow result" where
  "upload_cleanup file_direct w =
     and_then (os_remove file_direct w) (\<lambda>_ w1.
       let dir_local = dirname file_direct in
       if os_path_exists w1 dir_local
       then and_then (os_listdir dir_local w1) (\<lambda>names w2.
              if names = []
              then and_then (shutil_rmtree dir_local w2) (\<lambda>_ w3. (Inr (Return (PyBool True)), w3))
              else (Inr (Return (PyBool True)), w2))
       else (Inr (Return (PyBool True)), w1))"

text \<open>The body of the loop of \<^verbatim>\<open>upload\<close> for one element \<open>i\<close> (lines 69 to 96).\<close>

definition upload_body :: "S3Minio \<Rightarrow> string \<Rightarrow> world \<Rightarrow> pyval flow result" where
  "upload_body self i w =
     (let path = i;
          file_direct = ''temp/media/'' @ path
      in except_Exception_raise_ValueError (\<lambda>exc. ''Upload Error: '' @ exc_str exc)
           (let w1 = py_print [''Uploading '' @ file_direct @ '' to MinIO...''] w
            in and_then
                 (except_Exception_raise_ValueError (\<lambda>exc. ''Upload Error: '' @ exc_str exc)
                    (upload_transfer self path file_direct w1))
                 (\<lambda>_ w2. upload_cleanup file_direct w2)))"

definition upload :: "S3Minio \<Rightarrow> string list \<Rightarrow> world \<Rightarrow> pyval result" where
  "upload self args w = for_each (upload_body self) args w"

subsection \<open>\<^verbatim>\<open>delete\<close>\<close>

definition delete_body :: "S3Minio \<Rightarrow> string \<Rightarrow> world \<Rightarrow> pyval flow result" where
  "delete_body self i w =
     (let path = i
      in except_Exception_raise_ValueError (\<lambda>exc. ''Delete Error: '' @ exc_str exc)
           (and_then (delete_object (s3_bucket_name self) path w)
              (\<lambda>_ w1. (Inr (Return (PyBool True)), w1))))"

definition delete :: "S3Minio \<Rightarrow> string list \<Rightarrow> world \<Rightarrow> pyval result" where
  "delete self args w = for_each (delete_body self) args w"

subsection \<open>\<^verbatim>\<open>get_url\<close>\<close>


subsection \<open>\<^verbatim>\<open>webp_converter\<close>\<close>

text \<open>\<^verbatim>\<open>e in s\<close> on strings: \<open>e\<close> occurs in \<open>s\<close> as a contiguous substring.\<close>

fun is_substr :: "string \<Rightarrow> string \<Rightarrow> bool" where
  "is_substr e [] = (e = [])"
| "is_substr e (c # cs) = (take (length e) (c # cs) = e \<or> is_substr e cs)"

text \<open>
  \<^verbatim>\<open>s.replace(old, new)\<close> for a non-empty \<open>old\<close>: every occurrence, found from left to
  right without overlap, is replaced. (The module calls it with non-empty literals only;
  for an empty \<open>old\<close> the model leaves \<open>s\<close> unchanged.)
\<close>

function py_replace :: "string \<Rightarrow> string \<Rightarrow> string \<Rightarrow> string" where
  "py_replace old new [] = []"
| "py_replace old new (c # cs) =
     (if old \<noteq> [] \<and> take (length old) (c # cs) = old
      then new @ py_replace old new (drop (length old) (c # cs))
      else c # py_replace old new cs)"
  by pat_completeness auto
termination
  by (relation "measure (\<lambda>(old, new, s). length s)") auto

definition import_ContentFile :: "world \<Rightarrow> unit result" where
  "import_ContentFile w =
     (let w1 = log_call ImportContentFile w in
      case fault w ImportContentFile of
        Some e \<Rightarrow> (Inl e, w1)
      | None \<Rightarrow> (Inr (), w1))"

definition Image_open :: "nat \<Rightarrow> world \<Rightarrow> pil_image result" where
  "Image_open im w =
     (let w1 = log_call (ImageOpen im) w in
      case fault w (ImageOpen im) of
        Some e \<Rightarrow> (Inl e, w1)
      | None \<Rightarrow> (Inr (pil_decode w (image_data (heap w im))), w1))"

definition Image_convert :: "pil_image \<Rightarrow> string \<Rightarrow> world \<Rightarrow> pil_image result" where
  "Image_convert img mode w =
     (let w1 = log_call (ImageConvert mode) w in
      case fault w (ImageConvert mode) of
        Some e \<Rightarrow> (Inl e, w1)
      | None \<Rightarrow> (Inr (pil_convert w mode img), w1))"

text \<open>\<^verbatim>\<open>img.save(buffer, fmt, quality=q)\<close>; the result is what the buffer then holds.\<close>

definition Image_save :: "pil_image \<Rightarrow> string \<Rightarrow> nat \<Rightarrow> world \<Rightarrow> bytes result" where
  "Image_save img fmt quality w =
     (let w1 = log_call (ImageSave fmt quality) w in
      case fault w (ImageSave fmt quality) of
        Some e \<Rightarrow> (Inl e, w1)
      | None \<Rightarrow> (Inr (pil_encode w fmt quality img), w1))"

definition extensions :: "string list" where
  "extensions = [''.jpg'', ''.jpeg'', ''.png'', ''.svg'', ''.gif'']"

text \<open>
  Lines 165 to 167 for one extension \<open>e\<close>; the result says whether \<^verbatim>\<open>break\<close> was
  executed. A name that is \<^verbatim>\<open>None\<close> makes \<^verbatim>\<open>e in image.name\<close> raise a
  \<open>TypeError\<close>.
\<close>

definition rename_step :: "nat \<Rightarrow> string \<Rightarrow> world \<Rightarrow> bool result" where
  "rename_step im e w =
     (case image_name (heap w im) of
        None \<Rightarrow> (Inl (Exc TypeError ''argument of type NoneType is not iterable'' None), w)
      | Some n \<Rightarrow>
          if is_substr e n
          then (Inr True,
                w\<lparr>heap := (heap w)(im :=
                    (heap w im)\<lparr>image_name := Some (py_replace e ''.webp'' n)\<rparr>)\<rparr>)
          else (Inr False, w))"

text \<open>The loop over the extensions (lines 163 to 169).\<close>

fun rename_loop :: "nat \<Rightarrow> string list \<Rightarrow> world \<Rightarrow> unit result" where
  "rename_loop im [] w = (Inr (), w)"
| "rename_loop im (e # es) w =
     (case except_Exception_raise_ValueError
             (\<lambda>exc. ''Converter Error (Exclusive to Django models) | pip install django django-storages'')
             (rename_step im e w) of
        (Inl x, w') \<Rightarrow> (Inl x, w')
      | (Inr True, w') \<Rightarrow> (Inr (), w')
      | (Inr False, w') \<Rightarrow> rename_loop im es w')"

text \<open>The body of the loop over the images (lines 155 to 174).\<close>

definition webp_body :: "S3Minio \<Rightarrow> nat \<Rightarrow> world \<Rightarrow> pyval flow result" where
  "webp_body self im w =
     except_Exception_raise_ValueError
       (\<lambda>exc. ''Converter Error (Exclusive to Django models) | pip install django'')
       (and_then (Image_open im w) (\<lambda>img w1.
        and_then (Image_convert img ''RGB'' w1) (\<lambda>img w2.
        and_then (Image_save img ''WEBP'' 75 w2) (\<lambda>buffer w3.
        and_then (rename_loop im extensions w3) (\<lambda>_ w4.
          (Inr (Return (ContentFile buffer)), w4))))))"

definition webp_converter :: "S3Minio \<Rightarrow> nat list \<Rightarrow> world \<Rightarrow> pyval result" where
  "webp_converter self args w =
     (case import_ContentFile w of
        (Inl e, w1) \<Rightarrow>
          if is_ImportError (exc_class e)
          then (Inl (Exc ImportError
                  ''Convert Error (Exclusive to Django models) | pip install django django-storages''
                  (Some e)), w1)
          else (Inl e, w1)
      | (Inr _, w1) \<Rightarrow> for_each (webp_body self) args w1)"

section \<open>\<^verbatim>\<open>generate_image_filename\<close>\<close>

text \<open>
  Python strings are sequences of code points; the model has the code points below 256.
  \<^verbatim>\<open>str.isspace\<close> on these: the ASCII whitespace and separators, NEL and the
  no-break space.
\<close>

definition py_isspace :: "char \<Rightarrow> bool" where
  "py_isspace c = (of_char c \<in> {9, 10, 11, 12, 13, 28, 29, 30, 31, 32, 133, 160 :: nat})"

definition lstrip :: "string \<Rightarrow> string" where
  "lstrip s = dropWhile py_isspace s"

definition rstrip :: "string \<Rightarrow> string" where
  "rstrip s = rev (dropWhile py_isspace (rev s))"

text \<open>\<^verbatim>\<open>s.strip()\<close>: leading and trailing whitespace removed.\<close>

definition strip :: "string \<Rightarrow> string" where
  "strip s = rstrip (lstrip s)"

text \<open>The character class \<^verbatim>\<open>[A-Za-z0-9._-]\<close>.\<close>

definition valid_char :: "char \<Rightarrow> bool" where
  "valid_char c =
     (c \<in> set ''ABCDEFGHIJKLMNOPQRSTUVWXYZabcdefghijklmnopqrstuvwxyz0123456789._-'')"

definition get_valid_filename :: "string \<Rightarrow> string" where
  "get_valid_filename filename =
     (let filename = py_replace '' '' ''_'' (strip filename)
      in filter valid_char filename)"

text \<open>\<^verbatim>\<open>s.split(sep)\<close> for a one-character separator; the result is never empty.\<close>

fun split_on :: "char \<Rightarrow> string \<Rightarrow> string list" where
  "split_on sep [] = [[]]"
| "split_on sep (c # cs) =
     (if c = sep then [] # split_on sep cs
      else (case split_on sep cs of
              p # ps \<Rightarrow> (c # p) # ps
            | [] \<Rightarrow> [[c]]))"

text \<open>\<^verbatim>\<open>str(n)\<close> for a natural number.\<close>

fun str_nat :: "nat \<Rightarrow> string" where
  "str_nat n =
     (if n < 10 then [''0123456789'' ! n]
      else str_nat (n div 10) @ [''0123456789'' ! (n mod 10)])"

declare str_nat.simps [simp del]

definition zfill :: "nat \<Rightarrow> string \<Rightarrow> string" where
  "zfill width s = replicate (width - length s) CHR ''0'' @ s"

record datetime =
  dt_year :: nat
  dt_month :: nat
  dt_day :: nat
  dt_hour :: nat
  dt_minute :: nat
  dt_second :: nat

text \<open>
  The directives the module uses. \<^verbatim>\<open>%F\<close> is not a directive of Python's own; the
  C library's \<^verbatim>\<open>strftime\<close>, to which \<^verbatim>\<open>datetime.strftime\<close> hands the format, defines
  it as \<^verbatim>\<open>%Y-%m-%d\<close>. Numbers are zero-padded to their documented width. Any other
  character after \<^verbatim>\<open>%\<close> is kept as it is.
\<close>

definition directive :: "datetime \<Rightarrow> char \<Rightarrow> string" where
  "directive dt c =
     (if c = CHR ''Y'' then zfill 4 (str_nat (dt_year dt))
      else if c = CHR ''m'' then zfill 2 (str_nat (dt_month dt))
      else if c = CHR ''d'' then zfill 2 (str_nat (dt_day dt))
      else if c = CHR ''H'' then zfill 2 (str_nat (dt_hour dt))
      else if c = CHR ''M'' then zfill 2 (str_nat (dt_minute dt))
      else if c = CHR ''S'' then zfill 2 (str_nat (dt_second dt))
      else if c = CHR ''F'' then
        zfill 4 (str_nat (dt_year dt)) @ ''-'' @ zfill 2 (str_nat (dt_month dt)) @ ''-''
        @ zfill 2 (str_nat (dt_day dt))
      else [CHR ''%'', c])"

fun strftime :: "datetime \<Rightarrow> string \<Rightarrow> string" where
  "strftime dt [] = []"
| "strftime dt [c] = [c]"
| "strftime dt (c # d # rest) =
     (if c = CHR ''%'' then directive dt d @ strftime dt rest
      else c # strftime dt (d # rest))"

text \<open>
  \<^verbatim>\<open>random.randint(a, b)\<close>: a number between \<open>a\<close> and \<open>b\<close>, both included; which one is
  decided by the generator's draw.
\<close>

definition randint :: "nat \<Rightarrow> nat \<Rightarrow> nat \<Rightarrow> nat" where
  "randint a b draw = a + draw mod (b - a + 1)"

text \<open>The model instance: the name of its class and its \<^verbatim>\<open>created_at\<close>.\<close>

record model_instance =
  class_name :: string
  created_at :: datetime

definition generate_image_filename :: "model_instance \<Rightarrow> string \<Rightarrow> nat \<Rightarrow> string" where
  "generate_image_filename inst filename draw =
     (let random_number = randint 1000 9999 draw;
          file_ext = last (split_on CHR ''.'' filename);
          cls = class_name inst;
          timestamped_name = strftime (created_at inst) ''%Y-%m-%d-%H-%M-%S-%F'';
          valid_filename =
            get_valid_filename (timestamped_name @ ''-'' @ str_nat random_number @ ''.'' @ file_ext)
      in cls @ ''/'' @ timestamped_name @ ''/'' @ valid_filename)"

text \<open>
  The sanitisation as the specification words it: spaces become underscores, then every
  character outside \<^verbatim>\<open>[A-Za-z0-9._-]\<close> is dropped. To be compared with
  \<open>get_valid_filename\<close>.
\<close>

definition sanitize_as_specified :: "string \<Rightarrow> string" where
  "sanitize_as_specified s = filter valid_char (py_replace '' '' ''_'' s)"

section \<open>Auxiliary definitions for the properties\<close>

text \<open>Recognises the upload requests in a trace.\<close>

fun is_UploadFile :: "call \<Rightarrow> bool" where
  "is_UploadFile (UploadFile f b k) = True"
| "is_UploadFile _ = False"

text \<open>
  A concrete environment on which the properties are exercised: a bucket \<^verbatim>\<open>media\<close>
  with two objects, two staging files, two image objects and no faults; a gateway for
  that bucket, whose signing function writes a path-style URL; and two failures of the
  backend.
\<close>

definition demo_world :: world where
  "demo_world =
     \<lparr>bucket_objects = [(''media'', ''a.txt'') \<mapsto> ''A'', (''media'', ''b.txt'') \<mapsto> ''B''],
      fs_files = [(''temp/media/post/p.png'', ''PNG''), (''temp/media/q.png'', ''QQ'')],
      fs_dirs = [''temp'', ''temp/media'', ''temp/media/post''],
      fault = (\<lambda>c. None),
      trace = [],
      stdout = [],
      heap = (\<lambda>r. if r = 0 then \<lparr>image_name = Some ''a.png'', image_data = ''AAA''\<rparr>
                   else \<lparr>image_name = Some ''b.png'', image_data = ''BBB''\<rparr>),
      pil_decode = PilImage ''P'',
      pil_convert = (\<lambda>mode img. PilImage mode (pil_pixels img)),
      pil_encode = (\<lambda>fmt quality img. fmt @ pil_pixels img)\<rparr>"

definition demo_gateway :: S3Minio where
  "demo_gateway =
     \<lparr>s3 = \<lparr>endpoint_url = ''http://minio:9000'', aws_access_key_id = ''key'',
             aws_secret_access_key = ''secret'',
             presign = (\<lambda>m bucket key expires.
               ''http://minio:9000/'' @ bucket @ ''/'' @ key @ ''?X-Amz-Expires='' @ str_nat expires)\<rparr>,
      s3_bucket_name = ''media''\<rparr>"





definition demo_no_django :: world where
  "demo_no_django = demo_world\<lparr>fault := (\<lambda>c. case c of
      ImportContentFile \<Rightarrow> Some (Exc ModuleNotFoundError ''No module named django'' None)
    | _ \<Rightarrow> None)\<rparr>"


text \<open>The model instance of the specification's scenario.\<close>

definition demo_post :: model_instance where
  "demo_post = \<lparr>class_name = ''Post'',
     created_at = \<lparr>dt_year = 2024, dt_month = 1, dt_day = 2, dt_hour = 3, dt_minute = 4, dt_second = 5\<rparr>\<rparr>"

text \<open>The characters of a decimal number and of the formatted timestamp.\<close>

definition digit_char :: "char \<Rightarrow> bool" where
  "digit_char c = (c \<in> set ''0123456789'')"

definition timestamp_char :: "char \<Rightarrow> bool" where
  "timestamp_char c = (digit_char c \<or> c = CHR ''-'')"

section \<open>What every step preserves\<close>

lemma py_print_frame [simp]:
  "trace (py_print a w) = trace w"
  "fault (py_print a w) = fault w"
  "fs_files (py_print a w) = fs_files w"
  "fs_dirs (py_print a w) = fs_dirs w"
  "bucket_objects (py_print a w) = bucket_objects w"
  "heap (py_print a w) = heap w"
  by (simp_all add: py_print_def)

lemma log_call_frame [simp]:
  "trace (log_call c w) = trace w @ [c]"
  "fault (log_call c w) = fault w"
  "fs_files (log_call c w) = fs_files w"
  "fs_dirs (log_call c w) = fs_dirs w"
  "bucket_objects (log_call c w) = bucket_objects w"
  "heap (log_call c w) = heap w"
  "stdout (log_call c w) = stdout w"
  by (simp_all add: log_call_def)

lemma upload_cleanup_result:
  "fst (upload_cleanup f w) = Inr (Return (PyBool True)) \<or> (\<exists>e. fst (upload_cleanup f w) = Inl e)"
  by (auto simp: upload_cleanup_def os_remove_def os_listdir_def shutil_rmtree_def and_then_def Let_def
      split: option.splits if_splits)

lemma upload_cleanup_trace:
  "filter is_UploadFile (trace (snd (upload_cleanup f w))) = filter is_UploadFile (trace w)"
  by (auto simp: upload_cleanup_def os_remove_def os_listdir_def shutil_rmtree_def and_then_def Let_def
      split: option.splits if_splits)

lemma upload_cleanup_bucket:
  "bucket_objects (snd (upload_cleanup f w)) = bucket_objects w"
  by (auto simp: upload_cleanup_def os_remove_def os_listdir_def shutil_rmtree_def and_then_def Let_def
      split: option.splits if_splits)


lemma upload_cleanup_fs:
  "upload_cleanup f w = (Inr r, w') \<Longrightarrow>
     f \<notin> fst ` set (fs_files w')
     \<and> \<not> (dirname f \<in> set (fs_dirs w') \<and> dir_entries w' (dirname f) = [])"
  by (auto simp: upload_cleanup_def os_remove_def os_listdir_def shutil_rmtree_def and_then_def Let_def
        os_path_exists_def dir_entries_def under_def
      split: option.splits if_splits)

lemma upload_file_print:
  "fst (upload_file f b k (py_print a w)) = fst (upload_file f b k w)"
  by (simp add: upload_file_def Let_def split: option.splits)

lemma upload_transfer_fst:
  "fst (upload_transfer g k f w) = fst (upload_file f (s3_bucket_name g) k w)"
  by (simp add: upload_transfer_def upload_file_def and_then_def Let_def split: option.splits)

lemma upload_transfer_trace:
  "trace (snd (upload_transfer g k f w)) = trace w @ [UploadFile f (s3_bucket_name g) k]"
  by (simp add: upload_transfer_def upload_file_def and_then_def Let_def split: option.splits)

lemma upload_transfer_bucket:
  "fst (upload_transfer g k f w) = Inr u \<Longrightarrow>
   bucket_objects (snd (upload_transfer g k f w)) = (bucket_objects w)((s3_bucket_name g, k) := map_of (fs_files w) f)
   \<and> map_of (fs_files w) f \<noteq> None"
  by (auto simp add: upload_transfer_def upload_file_def and_then_def Let_def split: option.splits)

lemma upload_transfer_frame:
  "fs_files (snd (upload_transfer g k f w)) = fs_files w"
  "fs_dirs (snd (upload_transfer g k f w)) = fs_dirs w"
  "fault (snd (upload_transfer g k f w)) = fault w"
  by (simp_all add: upload_transfer_def upload_file_def and_then_def Let_def split: option.splits)

lemma upload_body_raise:
  assumes "fst (upload_file (''temp/media/'' @ k) (s3_bucket_name g) k w) = Inl e"
  shows "fst (upload_body g k w) =
     Inl (if is_Exception (exc_class e)
          then Exc ValueError (''Upload Error: Upload Error: '' @ exc_str e)
                 (Some (Exc ValueError (''Upload Error: '' @ exc_str e) (Some e)))
          else e)"
proof -
  let ?w1 = "py_print [''Uploading '' @ (''temp/media/'' @ k) @ '' to MinIO...''] w"
  obtain r w2 where t: "upload_transfer g k (''temp/media/'' @ k) ?w1 = (r, w2)"
    by (cases "upload_transfer g k (''temp/media/'' @ k) ?w1")
  have "r = Inl e"
    using upload_transfer_fst [of g k "''temp/media/'' @ k" ?w1] t assms
    by (simp add: upload_file_print)
  with t show ?thesis
    by (simp add: upload_body_def Let_def and_then_def except_Exception_raise_ValueError_def)
qed

lemma upload_body_continue:
  assumes "fst (upload_file (''temp/media/'' @ k) (s3_bucket_name g) k w) = Inr u"
  shows "upload_body g k w =
     except_Exception_raise_ValueError (\<lambda>exc. ''Upload Error: '' @ exc_str exc)
       (upload_cleanup (''temp/media/'' @ k)
          (snd (upload_transfer g k (''temp/media/'' @ k)
                  (py_print [''Uploading '' @ (''temp/media/'' @ k) @ '' to MinIO...''] w))))"
proof -
  let ?w1 = "py_print [''Uploading '' @ (''temp/media/'' @ k) @ '' to MinIO...''] w"
  obtain r w2 where t: "upload_transfer g k (''temp/media/'' @ k) ?w1 = (r, w2)"
    by (cases "upload_transfer g k (''temp/media/'' @ k) ?w1")
  have "r = Inr u"
    using upload_transfer_fst [of g k "''temp/media/'' @ k" ?w1] t assms
    by (simp add: upload_file_print)
  with t show ?thesis
    by (simp add: upload_body_def Let_def and_then_def except_Exception_raise_ValueError_def)
qed

lemma except_fst_not_Next:
  "fst r \<noteq> Inr Next \<Longrightarrow> fst (except_Exception_raise_ValueError m r) \<noteq> Inr Next"
  by (cases r) (auto simp: except_Exception_raise_ValueError_def split: sum.splits)

lemma except_snd [simp]:
  "snd (except_Exception_raise_ValueError m r) = snd r"
  by (cases r) (auto simp: except_Exception_raise_ValueError_def split: sum.splits)

lemma except_Inr:
  "except_Exception_raise_ValueError m r = (Inr x, w') \<longleftrightarrow> r = (Inr x, w')"
  by (cases r) (auto simp: except_Exception_raise_ValueError_def split: sum.splits)

lemma upload_body_not_Next: "fst (upload_body g k w) \<noteq> Inr Next"
proof (cases "fst (upload_file (''temp/media/'' @ k) (s3_bucket_name g) k w)")
  case (Inl e)
  then show ?thesis by (simp add: upload_body_raise)
next
  case (Inr u)
  show ?thesis
    unfolding upload_body_continue [OF Inr]
  proof (rule except_fst_not_Next)
    show "fst (upload_cleanup (''temp/media/'' @ k)
           (snd (upload_transfer g k (''temp/media/'' @ k)
                  (py_print [''Uploading '' @ (''temp/media/'' @ k) @ '' to MinIO...''] w)))) \<noteq> Inr Next"
      (is "fst (upload_cleanup ?f ?w) \<noteq> _")
      using upload_cleanup_result [of ?f ?w] by auto
  qed
qed

lemma upload_body_snd:
  "snd (upload_body g k w) =
     (let w2 = snd (upload_transfer g k (''temp/media/'' @ k)
                  (py_print [''Uploading '' @ (''temp/media/'' @ k) @ '' to MinIO...''] w))
      in if isl (fst (upload_file (''temp/media/'' @ k) (s3_bucket_name g) k w)) then w2
         else snd (upload_cleanup (''temp/media/'' @ k) w2))"
proof (cases "fst (upload_file (''temp/media/'' @ k) (s3_bucket_name g) k w)")
  case (Inl e)
  let ?w1 = "py_print [''Uploading '' @ (''temp/media/'' @ k) @ '' to MinIO...''] w"
  obtain r w2 where t: "upload_transfer g k (''temp/media/'' @ k) ?w1 = (r, w2)"
    by (cases "upload_transfer g k (''temp/media/'' @ k) ?w1")
  have "r = Inl e"
    using upload_transfer_fst [of g k "''temp/media/'' @ k" ?w1] t Inl
    by (simp add: upload_file_print)
  with t Inl show ?thesis
    by (simp add: upload_body_def Let_def and_then_def except_Exception_raise_ValueError_def)
next
  case (Inr u)
  then show ?thesis by (simp add: upload_body_continue Let_def)
qed

lemma upload_body_trace:
  "filter is_UploadFile (trace (snd (upload_body g k w))) =
     filter is_UploadFile (trace w) @ [UploadFile (''temp/media/'' @ k) (s3_bucket_name g) k]"
  by (simp add: upload_body_snd Let_def upload_cleanup_trace upload_transfer_trace)



section \<open>The loop and its first element\<close>

lemma for_each_single_snd: "snd (for_each body [i] w) = snd (body i w)"
  by (cases "body i w") (auto split: sum.splits flow.splits)


lemma for_each_single_Return: "fst (body i w) = Inr (Return v) \<Longrightarrow> fst (for_each body [i] w) = Inr v"
  by (cases "body i w") (auto split: sum.splits flow.splits)

lemma for_each_single_True:
  "for_each body [i] w = (Inr (PyBool True), w') \<Longrightarrow> body i w = (Inr (Return (PyBool True)), w')"
  by (cases "body i w") (auto split: sum.splits flow.splits)

lemma for_each_first:
  "fst (body i w) \<noteq> Inr Next \<Longrightarrow> for_each body (i # rest) w = for_each body [i] w"
  by (cases "body i w") (auto split: sum.splits flow.splits)

lemma upload_body_bucket_other:
  "k2 \<noteq> k \<Longrightarrow> bucket_objects (snd (upload_body g k w)) (b, k2) = bucket_objects w (b, k2)"
  by (simp add: upload_body_snd Let_def upload_cleanup_bucket upload_transfer_def upload_file_def
        and_then_def split: option.splits)

lemma upload_body_success:
  assumes "upload_body g k w = (Inr r, w')"
  shows "bucket_objects w' (s3_bucket_name g, k) = map_of (fs_files w) (''temp/media/'' @ k)"
    and "map_of (fs_files w) (''temp/media/'' @ k) \<noteq> None"
    and "map_of (fs_files w') (''temp/media/'' @ k) = None"
    and "\<not> (dirname (''temp/media/'' @ k) \<in> set (fs_dirs w')
           \<and> dir_entries w' (dirname (''temp/media/'' @ k)) = [])"
proof -
  let ?f = "''temp/media/'' @ k"
  let ?w1 = "py_print [''Uploading '' @ ?f @ '' to MinIO...''] w"
  let ?w2 = "snd (upload_transfer g k ?f ?w1)"
  obtain u where ok: "fst (upload_file ?f (s3_bucket_name g) k w) = Inr u"
    using assms upload_body_raise [of k g w]
    by (cases "fst (upload_file ?f (s3_bucket_name g) k w)") auto
  then have tr: "fst (upload_transfer g k ?f ?w1) = Inr u"
    by (simp add: upload_transfer_fst upload_file_print)
  have cl: "upload_cleanup ?f ?w2 = (Inr r, w')"
    using assms by (simp add: upload_body_continue [OF ok] except_Inr)
  have b2: "bucket_objects ?w2 = (bucket_objects w)((s3_bucket_name g, k) := map_of (fs_files w) ?f)"
    and ex: "map_of (fs_files w) ?f \<noteq> None"
    using upload_transfer_bucket [OF tr] by simp_all
  have "bucket_objects w' = bucket_objects ?w2"
    using upload_cleanup_bucket [of ?f ?w2] cl by simp
  with b2 show "bucket_objects w' (s3_bucket_name g, k) = map_of (fs_files w) ?f" by simp
  show "map_of (fs_files w) ?f \<noteq> None" by (rule ex)
  from upload_cleanup_fs [OF cl]
  show "map_of (fs_files w') ?f = None"
    and "\<not> (dirname ?f \<in> set (fs_dirs w') \<and> dir_entries w' (dirname ?f) = [])"
    by (simp_all add: map_of_eq_None_iff)
qed

lemma upload_cleanup_ok:
  assumes "fault w (OsRemove f) = None" "fault w (OsListdir (dirname f)) = None"
    "fault w (ShutilRmtree (dirname f)) = None"
    "f \<in> fst ` set (fs_files w)" "dirname f \<notin> fst ` set (fs_files w)"
  shows "fst (upload_cleanup f w) = Inr (Return (PyBool True))"
  using assms
  by (auto simp: upload_cleanup_def os_remove_def os_listdir_def shutil_rmtree_def and_then_def Let_def
        os_path_exists_def split: option.splits if_splits)

lemma upload_body_ok:
  assumes "fault w (UploadFile (''temp/media/'' @ k) (s3_bucket_name g) k) = None"
    "fault w (OsRemove (''temp/media/'' @ k)) = None"
    "fault w (OsListdir (dirname (''temp/media/'' @ k))) = None"
    "fault w (ShutilRmtree (dirname (''temp/media/'' @ k))) = None"
    "map_of (fs_files w) (''temp/media/'' @ k) = Some content"
    "dirname (''temp/media/'' @ k) \<notin> fst ` set (fs_files w)"
  shows "fst (upload_body g k w) = Inr (Return (PyBool True))"
proof -
  let ?f = "''temp/media/'' @ k"
  let ?w1 = "py_print [''Uploading '' @ ?f @ '' to MinIO...''] w"
  let ?w2 = "snd (upload_transfer g k ?f ?w1)"
  have ok: "fst (upload_file ?f (s3_bucket_name g) k w) = Inr ()"
    using assms by (simp add: upload_file_def)
  have "?f \<in> fst ` set (fs_files w)"
    using assms(5) by (metis map_of_eq_None_iff option.distinct(1))
  then have "fst (upload_cleanup ?f ?w2) = Inr (Return (PyBool True))"
    using assms by (intro upload_cleanup_ok) (simp_all add: upload_transfer_frame)
  then show ?thesis
    by (cases "upload_cleanup ?f ?w2")
      (simp add: upload_body_continue [OF ok] except_Exception_raise_ValueError_def)
qed

lemma delete_body_fault:
  "fault w (DeleteObject (s3_bucket_name g) k) = Some e \<Longrightarrow>
   delete_body g k w =
     (Inl (if is_Exception (exc_class e) then Exc ValueError (''Delete Error: '' @ exc_str e) (Some e) else e),
      log_call (DeleteObject (s3_bucket_name g) k) w)"
  by (simp add: delete_body_def delete_object_def and_then_def except_Exception_raise_ValueError_def)

lemma delete_body_ok:
  "fault w (DeleteObject (s3_bucket_name g) k) = None \<Longrightarrow>
   delete_body g k w =
     (Inr (Return (PyBool True)),
      (log_call (DeleteObject (s3_bucket_name g) k) w)
        \<lparr>bucket_objects := (bucket_objects w)((s3_bucket_name g, k) := None)\<rparr>)"
  by (simp add: delete_body_def delete_object_def and_then_def except_Exception_raise_ValueError_def)

lemma delete_body_not_Next: "fst (delete_body g k w) \<noteq> Inr Next"
  by (cases "fault w (DeleteObject (s3_bucket_name g) k)") (simp_all add: delete_body_fault delete_body_ok)

lemma delete_body_trace:
  "trace (snd (delete_body g k w)) = trace w @ [DeleteObject (s3_bucket_name g) k]"
  by (cases "fault w (DeleteObject (s3_bucket_name g) k)") (simp_all add: delete_body_fault delete_body_ok log_call_def)


section \<open>Properties of \<^verbatim>\<open>upload\<close> and \<^verbatim>\<open>delete\<close>\<close>

text \<open>
  C1. Called with two or more keys, \<open>upload\<close> does exactly what it does for the first
  key alone: its result and the environment it leaves are those of \<open>upload\<close> on the
  one-element sequence; of all upload requests it sends only the one for the first key;
  the objects stored under the other keys are as before. When the staging file of the
  first key exists, its parent path is not itself a regular file and none of the four
  calls for the first key fails, the call returns \<^verbatim>\<open>True\<close>, the content of the staging
  file is stored under the first key and the staging file is gone.
\<close>

theorem upload_only_first:
  "upload g (k # k' # ks) w = upload g [k] w
   \<and> filter is_UploadFile (trace (snd (upload g (k # k' # ks) w))) =
       filter is_UploadFile (trace w) @ [UploadFile (''temp/media/'' @ k) (s3_bucket_name g) k]
   \<and> (\<forall>k2. k2 \<noteq> k \<longrightarrow>
         bucket_objects (snd (upload g (k # k' # ks) w)) (s3_bucket_name g, k2) =
           bucket_objects w (s3_bucket_name g, k2))
   \<and> (fault w (UploadFile (''temp/media/'' @ k) (s3_bucket_name g) k) = None
      \<and> fault w (OsRemove (''temp/media/'' @ k)) = None
      \<and> fault w (OsListdir (dirname (''temp/media/'' @ k))) = None
      \<and> fault w (ShutilRmtree (dirname (''temp/media/'' @ k))) = None
      \<and> map_of (fs_files w) (''temp/media/'' @ k) = Some content
      \<and> dirname (''temp/media/'' @ k) \<notin> fst ` set (fs_files w)
      \<longrightarrow> fst (upload g (k # k' # ks) w) = Inr (PyBool True)
          \<and> bucket_objects (snd (upload g (k # k' # ks) w)) (s3_bucket_name g, k) = Some content
          \<and> map_of (fs_files (snd (upload g (k # k' # ks) w))) (''temp/media/'' @ k) = None)"
proof -
  let ?f = "''temp/media/'' @ k"
  have first: "upload g (k # k' # ks) w = upload g [k] w"
    unfolding upload_def by (rule for_each_first) (rule upload_body_not_Next)
  have snd_eq: "snd (upload g [k] w) = snd (upload_body g k w)"
    unfolding upload_def by (rule for_each_single_snd)
  have tr: "filter is_UploadFile (trace (snd (upload g [k] w))) =
       filter is_UploadFile (trace w) @ [UploadFile ?f (s3_bucket_name g) k]"
    unfolding snd_eq by (rule upload_body_trace)
  have other: "bucket_objects (snd (upload g [k] w)) (s3_bucket_name g, k2) =
           bucket_objects w (s3_bucket_name g, k2)" if "k2 \<noteq> k" for k2
    unfolding snd_eq using that by (rule upload_body_bucket_other)
  have good: "fst (upload g [k] w) = Inr (PyBool True)
          \<and> bucket_objects (snd (upload g [k] w)) (s3_bucket_name g, k) = Some content
          \<and> map_of (fs_files (snd (upload g [k] w))) ?f = None"
    if h: "fault w (UploadFile ?f (s3_bucket_name g) k) = None"
      "fault w (OsRemove ?f) = None"
      "fault w (OsListdir (dirname ?f)) = None"
      "fault w (ShutilRmtree (dirname ?f)) = None"
      "map_of (fs_files w) ?f = Some content"
      "dirname ?f \<notin> fst ` set (fs_files w)"
  proof -
    have b: "fst (upload_body g k w) = Inr (Return (PyBool True))"
      using h by (rule upload_body_ok)
    then have "upload_body g k w = (Inr (Return (PyBool True)), snd (upload_body g k w))"
      by (metis prod.collapse)
    from upload_body_success [OF this] h(5)
    have "bucket_objects (snd (upload_body g k w)) (s3_bucket_name g, k) = Some content"
      and "map_of (fs_files (snd (upload_body g k w))) ?f = None"
      by simp_all
    moreover have "fst (upload g [k] w) = Inr (PyBool True)"
      unfolding upload_def using b by (rule for_each_single_Return)
    ultimately show ?thesis by (simp add: snd_eq)
  qed
  from first tr other good show ?thesis by simp
qed


theorem upload_only_first_witness:
  "fault demo_world (UploadFile ''temp/media/post/p.png'' ''media'' ''post/p.png'') = None
   \<and> map_of (fs_files demo_world) ''temp/media/post/p.png'' = Some ''PNG''
   \<and> fst (upload demo_gateway [''post/p.png'', ''q.png''] demo_world) = Inr (PyBool True)
   \<and> bucket_objects (snd (upload demo_gateway [''post/p.png'', ''q.png''] demo_world))
        (''media'', ''post/p.png'') = Some ''PNG''
   \<and> bucket_objects (snd (upload demo_gateway [''post/p.png'', ''q.png''] demo_world))
        (''media'', ''q.png'') = None
   \<and> map_of (fs_files (snd (upload demo_gateway [''post/p.png'', ''q.png''] demo_world)))
        ''temp/media/post/p.png'' = None"
proof -
  have a: "''temp/media/'' @ ''post/p.png'' = ''temp/media/post/p.png''"
    by simp
  have d: "dirname ''temp/media/post/p.png'' = ''temp/media/post''"
    by (simp add: dirname_def rstrip_sep_def)
  have b: "s3_bucket_name demo_gateway = ''media''"
    by (simp add: demo_gateway_def)
  have h: "fault demo_world c = None" for c
    by (simp add: demo_world_def)
  have f: "map_of (fs_files demo_world) ''temp/media/post/p.png'' = Some ''PNG''"
    and n: "''temp/media/post'' \<notin> fst ` set (fs_files demo_world)"
    and q: "bucket_objects demo_world (''media'', ''q.png'') = None"
    by (simp_all add: demo_world_def)
  note t = upload_only_first [of demo_gateway "''post/p.png''" "''q.png''" "[]" demo_world "''PNG''",
      unfolded b a d]
  from t have "\<forall>k2. k2 \<noteq> ''post/p.png'' \<longrightarrow>
      bucket_objects (snd (upload demo_gateway [''post/p.png'', ''q.png''] demo_world)) (''media'', k2) =
        bucket_objects demo_world (''media'', k2)"
    by (rule conjunct2 [THEN conjunct2, THEN conjunct1])
  then have "''q.png'' \<noteq> ''post/p.png'' \<longrightarrow>
      bucket_objects (snd (upload demo_gateway [''post/p.png'', ''q.png''] demo_world)) (''media'', ''q.png'') =
        bucket_objects demo_world (''media'', ''q.png'')"
    by (rule spec)
  then have other: "bucket_objects (snd (upload demo_gateway [''post/p.png'', ''q.png''] demo_world))
      (''media'', ''q.png'') = None"
    by (simp add: q)
  have hyps: "fault demo_world (UploadFile ''temp/media/post/p.png'' ''media'' ''post/p.png'') = None
      \<and> fault demo_world (OsRemove ''temp/media/post/p.png'') = None
      \<and> fault demo_world (OsListdir ''temp/media/post'') = None
      \<and> fault demo_world (ShutilRmtree ''temp/media/post'') = None
      \<and> map_of (fs_files demo_world) ''temp/media/post/p.png'' = Some ''PNG''
      \<and> ''temp/media/post'' \<notin> fst ` set (fs_files demo_world)"
    using h f n by (intro conjI)
  from t [THEN conjunct2, THEN conjunct2, THEN conjunct2, THEN mp, OF hyps] other h f
  show ?thesis
    by (intro conjI) (erule conjunct1 | erule conjunct2 [THEN conjunct1] | erule conjunct2 [THEN conjunct2] | assumption)+
qed

text \<open>
  C5. Called with two or more keys, \<open>delete\<close> does exactly what it does for the first
  key alone and sends one delete request, for the first key. When that request does not
  fail, the call returns \<^verbatim>\<open>True\<close> and the environment differs from the initial one
  only in the logged request and in the object of the first key, which is gone.
\<close>

theorem delete_only_first:
  "delete g (k # k' # ks) w = delete g [k] w
   \<and> trace (snd (delete g (k # k' # ks) w)) = trace w @ [DeleteObject (s3_bucket_name g) k]
   \<and> (fault w (DeleteObject (s3_bucket_name g) k) = None \<longrightarrow>
        delete g (k # k' # ks) w =
          (Inr (PyBool True),
           w\<lparr>trace := trace w @ [DeleteObject (s3_bucket_name g) k],
             bucket_objects := (bucket_objects w)((s3_bucket_name g, k) := None)\<rparr>))"
proof -
  have first: "delete g (k # k' # ks) w = delete g [k] w"
    unfolding delete_def by (rule for_each_first) (rule delete_body_not_Next)
  have tr: "trace (snd (delete g [k] w)) = trace w @ [DeleteObject (s3_bucket_name g) k]"
    using delete_body_trace [of g k w] delete_body_not_Next [of g k w]
    by (cases "delete_body g k w") (auto simp: delete_def split: sum.splits flow.splits)
  have ok: "delete g [k] w =
          (Inr (PyBool True),
           w\<lparr>trace := trace w @ [DeleteObject (s3_bucket_name g) k],
             bucket_objects := (bucket_objects w)((s3_bucket_name g, k) := None)\<rparr>)"
    if "fault w (DeleteObject (s3_bucket_name g) k) = None"
    using that by (simp add: delete_def delete_body_ok log_call_def)
  from first tr ok show ?thesis by simp
qed


theorem delete_only_first_witness:
  "fault demo_world (DeleteObject ''media'' ''a.txt'') = None
   \<and> fst (delete demo_gateway [''a.txt'', ''b.txt''] demo_world) = Inr (PyBool True)
   \<and> bucket_objects (snd (delete demo_gateway [''a.txt'', ''b.txt''] demo_world))
        (''media'', ''a.txt'') = None
   \<and> bucket_objects (snd (delete demo_gateway [''a.txt'', ''b.txt''] demo_world))
        (''media'', ''b.txt'') = Some ''B''"
proof -
  have b: "s3_bucket_name demo_gateway = ''media''"
    by (simp add: demo_gateway_def)
  have h: "fault demo_world c = None" for c
    by (simp add: demo_world_def)
  have o: "bucket_objects demo_world (''media'', ''b.txt'') = Some ''B''"
    by (simp add: demo_world_def)
  note t = delete_only_first [of demo_gateway "''a.txt''" "''b.txt''" "[]" demo_world, unfolded b]
  have "delete demo_gateway [''a.txt'', ''b.txt''] demo_world =
          (Inr (PyBool True),
           demo_world\<lparr>trace := trace demo_world @ [DeleteObject ''media'' ''a.txt''],
             bucket_objects := (bucket_objects demo_world)((''media'', ''a.txt'') := None)\<rparr>)"
    by (rule t [THEN conjunct2, THEN conjunct2, THEN mp, OF h])
  with h o show ?thesis
    by simp
qed

text \<open>
  C10. Called with no key at all, \<open>upload\<close> and \<open>delete\<close> return \<^verbatim>\<open>None\<close> (neither
  \<^verbatim>\<open>True\<close> nor an error) and leave the environment as it was: no call is logged.
\<close>

theorem empty_args_return_None:
  "upload g [] w = (Inr PyNone, w) \<and> delete g [] w = (Inr PyNone, w)"
  by (simp add: upload_def delete_def)

text \<open>
  C4. After an upload of a single key that returned \<^verbatim>\<open>True\<close>: the staging file
  \<^verbatim>\<open>temp/media/<key>\<close> existed, its content is stored in the bucket under the key, no
  file is left at the staging path, and if the parent directory of the staging file has
  no entry left then it is no longer a directory of the file system.
\<close>

theorem upload_single_staging_file:
  assumes "upload g [k] w = (Inr (PyBool True), w')"
  shows "map_of (fs_files w) (''temp/media/'' @ k) \<noteq> None
     \<and> bucket_objects w' (s3_bucket_name g, k) = map_of (fs_files w) (''temp/media/'' @ k)
     \<and> map_of (fs_files w') (''temp/media/'' @ k) = None
     \<and> (dir_entries w' (dirname (''temp/media/'' @ k)) = [] \<longrightarrow>
          dirname (''temp/media/'' @ k) \<notin> set (fs_dirs w'))"
proof -
  have "upload_body g k w = (Inr (Return (PyBool True)), w')"
    using assms unfolding upload_def by (rule for_each_single_True)
  from upload_body_success [OF this] show ?thesis
    by blast
qed

lemma demo_upload_eval:
  "fst (upload demo_gateway [''post/p.png''] demo_world) = Inr (PyBool True)"
  "fs_files (snd (upload demo_gateway [''post/p.png''] demo_world)) = [(''temp/media/q.png'', ''QQ'')]"
  "fs_dirs (snd (upload demo_gateway [''post/p.png''] demo_world)) = [''temp'', ''temp/media'']"
  by (simp_all add: upload_def upload_body_def upload_transfer_def upload_cleanup_def upload_file_def
      os_remove_def os_listdir_def shutil_rmtree_def os_path_exists_def dir_entries_def child_name_def
      under_def dirname_def rstrip_sep_def and_then_def except_Exception_raise_ValueError_def
      demo_world_def demo_gateway_def Let_def List.map_filter_def)


theorem upload_single_staging_file_witness:
  "upload demo_gateway [''post/p.png''] demo_world =
     (Inr (PyBool True), snd (upload demo_gateway [''post/p.png''] demo_world))
   \<and> dir_entries (snd (upload demo_gateway [''post/p.png''] demo_world)) ''temp/media/post'' = []
   \<and> bucket_objects (snd (upload demo_gateway [''post/p.png''] demo_world)) (''media'', ''post/p.png'')
       = Some ''PNG''
   \<and> map_of (fs_files (snd (upload demo_gateway [''post/p.png''] demo_world))) ''temp/media/post/p.png''
       = None
   \<and> ''temp/media/post'' \<notin> set (fs_dirs (snd (upload demo_gateway [''post/p.png''] demo_world)))"
proof -
  let ?w' = "snd (upload demo_gateway [''post/p.png''] demo_world)"
  have a: "''temp/media/'' @ ''post/p.png'' = ''temp/media/post/p.png''"
    by simp
  have d: "dirname ''temp/media/post/p.png'' = ''temp/media/post''"
    by (simp add: dirname_def rstrip_sep_def)
  have b: "s3_bucket_name demo_gateway = ''media''"
    by (simp add: demo_gateway_def)
  have f: "map_of (fs_files demo_world) ''temp/media/post/p.png'' = Some ''PNG''"
    by (simp add: demo_world_def)
  have ok: "upload demo_gateway [''post/p.png''] demo_world = (Inr (PyBool True), ?w')"
    using demo_upload_eval(1) by (metis prod.collapse)
  have e: "dir_entries ?w' ''temp/media/post'' = []"
    by (simp add: dir_entries_def demo_upload_eval child_name_def List.map_filter_def)
  note t = upload_single_staging_file [OF ok, unfolded b a d f]
  from t have "bucket_objects ?w' (''media'', ''post/p.png'') = Some ''PNG''"
    by (rule conjunct2 [THEN conjunct1])
  moreover from t have "map_of (fs_files ?w') ''temp/media/post/p.png'' = None"
    by (rule conjunct2 [THEN conjunct2, THEN conjunct1])
  moreover from t e have "''temp/media/post'' \<notin> set (fs_dirs ?w')"
    by (rule conjunct2 [THEN conjunct2, THEN conjunct2, THEN mp])
  ultimately show ?thesis
    using ok e by (intro conjI)
qed

section \<open>Exceptions of the SDK in \<^verbatim>\<open>upload\<close> and \<^verbatim>\<open>delete\<close>\<close>







section \<open>Properties of \<^verbatim>\<open>get_url\<close>\<close>















section \<open>Properties of \<^verbatim>\<open>webp_converter\<close>\<close>

text \<open>
  C9. When the import of the content wrapper fails with an \<open>ImportError\<close> (or its
  subclass), \<open>webp_converter\<close> raises an \<open>ImportError\<close> with the installation hint and
  the original error as cause, for every sequence of images; the only call it has made
  is the import, so no image has been opened, converted or renamed.
\<close>

theorem webp_converter_missing_dependency:
  assumes "fault w ImportContentFile = Some e" and "is_ImportError (exc_class e)"
  shows "webp_converter g args w =
     (Inl (Exc ImportError
             ''Convert Error (Exclusive to Django models) | pip install django django-storages''
             (Some e)),
      w\<lparr>trace := trace w @ [ImportContentFile]\<rparr>)"
  using assms by (simp add: webp_converter_def import_ContentFile_def log_call_def)

theorem webp_converter_missing_dependency_witness:
  "fault demo_no_django ImportContentFile = Some (Exc ModuleNotFoundError ''No module named django'' None)
   \<and> is_ImportError (exc_class (Exc ModuleNotFoundError ''No module named django'' None))
   \<and> webp_converter demo_gateway [0, 1] demo_no_django =
     (Inl (Exc ImportError
             ''Convert Error (Exclusive to Django models) | pip install django django-storages''
             (Some (Exc ModuleNotFoundError ''No module named django'' None))),
      demo_no_django\<lparr>trace := trace demo_no_django @ [ImportContentFile]\<rparr>)"
proof -
  have f: "fault demo_no_django ImportContentFile =
      Some (Exc ModuleNotFoundError ''No module named django'' None)"
    by (simp add: demo_no_django_def)
  have i: "is_ImportError (exc_class (Exc ModuleNotFoundError ''No module named django'' None))"
    by simp
  from webp_converter_missing_dependency [OF f i, of demo_gateway "[0, 1]"] f i
  show ?thesis by (intro conjI)
qed

lemma and_then_not_Next:
  "(\<And>x w'. fst (f x w') \<noteq> Inr Next) \<Longrightarrow> fst (and_then r f) \<noteq> Inr Next"
  by (cases r) (auto simp: and_then_def split: sum.splits)

lemma webp_body_not_Next: "fst (webp_body g im w) \<noteq> Inr Next"
  unfolding webp_body_def
  by (rule except_fst_not_Next) (intro and_then_not_Next, simp)

text \<open>
  C8. Given two or more images, \<open>webp_converter\<close> does what it does for the first
  image alone. On two images \<^verbatim>\<open>a.png\<close> and \<^verbatim>\<open>b.png\<close> it returns the content of the
  first, re-encoded as WEBP at quality 75 from its RGB conversion, and renames the first
  to \<^verbatim>\<open>a.webp\<close>; the second is never opened and keeps the name \<^verbatim>\<open>b.png\<close>.
\<close>

theorem webp_converter_only_first:
  "webp_converter g (i # j # rest) w = webp_converter g [i] w
   \<and> fst (webp_converter demo_gateway [0, 1] demo_world) = Inr (ContentFile ''WEBPAAA'')
   \<and> trace (snd (webp_converter demo_gateway [0, 1] demo_world)) =
       [ImportContentFile, ImageOpen 0, ImageConvert ''RGB'', ImageSave ''WEBP'' 75]
   \<and> image_name (heap (snd (webp_converter demo_gateway [0, 1] demo_world)) 0) = Some ''a.webp''
   \<and> image_name (heap (snd (webp_converter demo_gateway [0, 1] demo_world)) 1) = Some ''b.png''"
proof -
  have "for_each (webp_body g) (i # j # rest) w' = for_each (webp_body g) [i] w'" for w'
    by (rule for_each_first) (rule webp_body_not_Next)
  then have "webp_converter g (i # j # rest) w = webp_converter g [i] w"
    by (simp only: webp_converter_def)
  moreover have "fst (webp_converter demo_gateway [0, 1] demo_world) = Inr (ContentFile ''WEBPAAA'')
   \<and> trace (snd (webp_converter demo_gateway [0, 1] demo_world)) =
       [ImportContentFile, ImageOpen 0, ImageConvert ''RGB'', ImageSave ''WEBP'' 75]
   \<and> image_name (heap (snd (webp_converter demo_gateway [0, 1] demo_world)) 0) = Some ''a.webp''
   \<and> image_name (heap (snd (webp_converter demo_gateway [0, 1] demo_world)) 1) = Some ''b.png''"
    by (simp add: webp_converter_def import_ContentFile_def webp_body_def Image_open_def
      Image_convert_def Image_save_def rename_step_def extensions_def log_call_def and_then_def
      except_Exception_raise_ValueError_def demo_world_def Let_def)
  ultimately show ?thesis by (rule conjI)
qed

section \<open>Properties of \<^verbatim>\<open>generate_image_filename\<close>\<close>

lemma py_replace_char:
  "py_replace [a] [b] s = map (\<lambda>c. if c = a then b else c) s"
  by (induction s) simp_all

lemma timestamp_char_props:
  "timestamp_char c \<Longrightarrow> valid_char c \<and> \<not> py_isspace c \<and> c \<noteq> CHR '' ''"
  by (auto simp: timestamp_char_def digit_char_def valid_char_def py_isspace_def)

lemma digit_nth: "n < 10 \<Longrightarrow> digit_char (''0123456789'' ! n)"
proof -
  assume "n < 10"
  then have "n \<in> {0, 1, 2, 3, 4, 5, 6, 7, 8, 9}" by auto
  then show ?thesis by (auto simp: digit_char_def)
qed

lemma str_nat_digits: "list_all digit_char (str_nat n)"
proof (induction n rule: str_nat.induct)
  case (1 n)
  show ?case
  proof (cases "n < 10")
    case True
    then show ?thesis by (subst str_nat.simps) (simp add: digit_nth)
  next
    case False
    with 1 show ?thesis by (subst str_nat.simps) (simp add: digit_nth)
  qed
qed

lemma str_nat_chars: "list_all timestamp_char (str_nat n)"
  using str_nat_digits [of n] by (simp add: list_all_iff timestamp_char_def)

lemma str_nat_nonempty: "str_nat n \<noteq> []"
  by (subst str_nat.simps) simp

lemma zfill_chars: "list_all timestamp_char s \<Longrightarrow> list_all timestamp_char (zfill n s)"
proof -
  have z: "timestamp_char CHR ''0''"
    by (simp add: timestamp_char_def digit_char_def)
  assume "list_all timestamp_char s"
  then show ?thesis
    by (auto simp: zfill_def list_all_iff z)
qed

lemma zfill_nonempty: "s \<noteq> [] \<Longrightarrow> zfill n s \<noteq> []"
  by (simp add: zfill_def)

lemma strftime_unfold:
  "strftime dt ''%Y-%m-%d-%H-%M-%S-%F'' =
     zfill 4 (str_nat (dt_year dt)) @ ''-'' @ zfill 2 (str_nat (dt_month dt)) @ ''-'' @
     zfill 2 (str_nat (dt_day dt)) @ ''-'' @ zfill 2 (str_nat (dt_hour dt)) @ ''-'' @
     zfill 2 (str_nat (dt_minute dt)) @ ''-'' @ zfill 2 (str_nat (dt_second dt)) @ ''-'' @
     zfill 4 (str_nat (dt_year dt)) @ ''-'' @ zfill 2 (str_nat (dt_month dt)) @ ''-'' @
     zfill 2 (str_nat (dt_day dt))"
  by (simp add: directive_def)

lemma strftime_chars: "list_all timestamp_char (strftime dt ''%Y-%m-%d-%H-%M-%S-%F'')"
  unfolding strftime_unfold
  by (simp add: zfill_chars str_nat_chars) (simp add: timestamp_char_def)

lemma strftime_nonempty: "strftime dt ''%Y-%m-%d-%H-%M-%S-%F'' \<noteq> []"
  unfolding strftime_unfold by (simp add: zfill_nonempty str_nat_nonempty)

lemma lstrip_keep: "s \<noteq> [] \<Longrightarrow> \<not> py_isspace (hd s) \<Longrightarrow> lstrip (s @ t) = s @ t"
  by (cases s) (simp_all add: lstrip_def)

lemma rstrip_keep: "p \<noteq> [] \<Longrightarrow> \<not> py_isspace (last p) \<Longrightarrow> rstrip (p @ e) = p @ rstrip e"
proof -
  assume p: "p \<noteq> []" and l: "\<not> py_isspace (last p)"
  then have "dropWhile py_isspace (rev p) = rev p"
    by (cases "rev p") (simp_all add: last_rev [symmetric] hd_rev)
  then show ?thesis
    by (auto simp: rstrip_def dropWhile_append)
qed

lemma sanitize_keep:
  "list_all timestamp_char s \<Longrightarrow> sanitize_as_specified (s @ t) = s @ sanitize_as_specified t"
proof (induction s)
  case Nil
  then show ?case by simp
next
  case (Cons c s)
  then show ?case
    using timestamp_char_props [of c]
    by (simp add: sanitize_as_specified_def py_replace_char)
qed

lemma sanitize_valid: "list_all valid_char (sanitize_as_specified s)"
  by (simp add: sanitize_as_specified_def list_all_iff)

lemma get_valid_filename_eq: "get_valid_filename s = sanitize_as_specified (strip s)"
  by (simp add: get_valid_filename_def sanitize_as_specified_def)

lemma randint_range: "1000 \<le> randint 1000 9999 draw \<and> randint 1000 9999 draw \<le> 9999"
proof -
  have "draw mod 9000 < 9000" by simp
  then show ?thesis unfolding randint_def by simp
qed

lemma str_nat_four: "1000 \<le> n \<Longrightarrow> n \<le> 9999 \<Longrightarrow> length (str_nat n) = 4"
proof -
  assume a: "1000 \<le> n" "n \<le> 9999"
  then have 1: "\<not> n < 10" and 2: "\<not> n div 10 < 10" and 3: "\<not> n div 10 div 10 < 10"
    and 4: "n div 10 div 10 div 10 < 10"
    by simp_all
  show ?thesis
    by (subst str_nat.simps, simp only: 1 if_False, subst str_nat.simps, simp only: 2 if_False,
        subst str_nat.simps, simp only: 3 if_False, subst str_nat.simps, simp only: 4 if_True) simp
qed


lemma sanitize_dot: "sanitize_as_specified (''.'' @ e) = ''.'' @ sanitize_as_specified e"
  by (simp add: sanitize_as_specified_def py_replace_char valid_char_def)

text \<open>
  C7, as amended. The result is \<^verbatim>\<open><class name>/<timestamp>/<final segment>\<close>. The
  final segment is the text \<^verbatim>\<open><timestamp>-<random>.<extension>\<close> sanitised as a whole:
  leading and trailing whitespace is removed first, then spaces become underscores, then
  every character outside \<^verbatim>\<open>[A-Za-z0-9._-]\<close> is dropped. The timestamp consists of
  digits and hyphens and passes unchanged, the random number lies between 1000 and 9999
  and is written with four digits, and of the extension (the text after the last dot of
  the file name) what is left is its sanitised form without trailing whitespace. Every
  character of the final segment is in \<^verbatim>\<open>[A-Za-z0-9._-]\<close>.
\<close>

theorem generate_image_filename_shape:
  "let ts = strftime (created_at inst) ''%Y-%m-%d-%H-%M-%S-%F'';
       r = randint 1000 9999 draw;
       ext = last (split_on CHR ''.'' filename);
       seg = ts @ ''-'' @ str_nat r @ ''.'' @ sanitize_as_specified (rstrip ext)
   in generate_image_filename inst filename draw = class_name inst @ ''/'' @ ts @ ''/'' @ seg
      \<and> seg = sanitize_as_specified (strip (ts @ ''-'' @ str_nat r @ ''.'' @ ext))
      \<and> list_all valid_char seg
      \<and> 1000 \<le> r \<and> r \<le> 9999 \<and> length (str_nat r) = 4 \<and> list_all digit_char (str_nat r)"
proof -
  define ts where "ts = strftime (created_at inst) ''%Y-%m-%d-%H-%M-%S-%F''"
  define r where "r = randint 1000 9999 draw"
  define ext where "ext = last (split_on CHR ''.'' filename)"
  define seg where "seg = ts @ ''-'' @ str_nat r @ ''.'' @ sanitize_as_specified (rstrip ext)"
  have ts_chars: "list_all timestamp_char ts" and ts_ne: "ts \<noteq> []"
    unfolding ts_def by (rule strftime_chars, rule strftime_nonempty)
  have hd_ts: "\<not> py_isspace (hd ts)"
    using ts_chars ts_ne timestamp_char_props [of "hd ts"] by (cases ts) simp_all
  have pre_chars: "list_all timestamp_char (ts @ ''-'' @ str_nat r)"
    using ts_chars str_nat_chars [of r] by (simp add: timestamp_char_def)
  have "strip (ts @ ''-'' @ str_nat r @ ''.'' @ ext) = rstrip ((ts @ ''-'' @ str_nat r @ ''.'') @ ext)"
    using lstrip_keep [OF ts_ne hd_ts] by (simp add: strip_def)
  also have "\<dots> = (ts @ ''-'' @ str_nat r @ ''.'') @ rstrip ext"
    by (rule rstrip_keep) (simp_all add: py_isspace_def)
  finally have st: "strip (ts @ ''-'' @ str_nat r @ ''.'' @ ext) =
      (ts @ ''-'' @ str_nat r) @ ''.'' @ rstrip ext"
    by simp
  have seg_eq: "seg = sanitize_as_specified (strip (ts @ ''-'' @ str_nat r @ ''.'' @ ext))"
    unfolding st sanitize_keep [OF pre_chars] sanitize_dot seg_def by simp
  have out: "generate_image_filename inst filename draw = class_name inst @ ''/'' @ ts @ ''/'' @ seg"
    unfolding seg_eq
    by (simp add: generate_image_filename_def Let_def get_valid_filename_eq ts_def r_def ext_def)
  have valid: "list_all valid_char seg"
    unfolding seg_eq by (rule sanitize_valid)
  have rr: "1000 \<le> r \<and> r \<le> 9999"
    unfolding r_def by (rule randint_range)
  then have four: "length (str_nat r) = 4"
    by (simp add: str_nat_four)
  from out seg_eq valid rr four str_nat_digits [of r] show ?thesis
    unfolding Let_def ts_def [symmetric] r_def [symmetric] ext_def [symmetric] seg_def [symmetric]
    by (intro conjI) simp_all
qed

lemma demo_post_eval:
  "strftime (created_at demo_post) ''%Y-%m-%d-%H-%M-%S-%F'' = ''2024-01-02-03-04-05-2024-01-02''"
  "class_name demo_post = ''Post''"
  "str_nat (randint 1000 9999 234) = ''1234''"
  by (simp_all add: demo_post_def directive_def zfill_def str_nat.simps randint_def)

lemma demo_ext_eval:
  "last (split_on CHR ''.'' ''My Photo #1.JPG'') = ''JPG''"
  "last (split_on CHR ''.'' ''a.jpg '') = ''jpg ''"
  by simp_all

theorem generate_image_filename_shape_witness:
  "generate_image_filename demo_post ''My Photo #1.JPG'' 234 =
     ''Post/2024-01-02-03-04-05-2024-01-02/2024-01-02-03-04-05-2024-01-02-1234.JPG''
   \<and> list_all valid_char ''2024-01-02-03-04-05-2024-01-02-1234.JPG''"
proof -
  have e: "sanitize_as_specified (rstrip ''JPG'') = ''JPG''"
    by (simp add: sanitize_as_specified_def rstrip_def py_isspace_def valid_char_def)
  note t = generate_image_filename_shape [of demo_post 234 "''My Photo #1.JPG''",
      unfolded Let_def demo_post_eval demo_ext_eval e]
  from t have "generate_image_filename demo_post ''My Photo #1.JPG'' 234 =
     ''Post'' @ ''/'' @ ''2024-01-02-03-04-05-2024-01-02'' @ ''/'' @
       ''2024-01-02-03-04-05-2024-01-02'' @ ''-'' @ ''1234'' @ ''.'' @ ''JPG''"
    by (rule conjunct1)
  moreover from t have "list_all valid_char
      (''2024-01-02-03-04-05-2024-01-02'' @ ''-'' @ ''1234'' @ ''.'' @ ''JPG'')"
    by (rule conjunct2 [THEN conjunct2, THEN conjunct1])
  ultimately show ?thesis by simp
qed

text \<open>
  C7 as it was stated fails on a file name that ends with a space: sanitising as the
  specification words it (no trimming first) would give an extension \<^verbatim>\<open>jpg_\<close>, the
  code gives \<^verbatim>\<open>jpg\<close>.
\<close>

theorem generate_image_filename_counterexample:
  "generate_image_filename demo_post ''a.jpg '' 234 \<noteq>
     class_name demo_post @ ''/'' @ strftime (created_at demo_post) ''%Y-%m-%d-%H-%M-%S-%F'' @ ''/'' @
       sanitize_as_specified (strftime (created_at demo_post) ''%Y-%m-%d-%H-%M-%S-%F'' @ ''-'' @
         str_nat (randint 1000 9999 234) @ ''.'' @ last (split_on CHR ''.'' ''a.jpg ''))
   \<and> generate_image_filename demo_post ''a.jpg '' 234 =
       ''Post/2024-01-02-03-04-05-2024-01-02/2024-01-02-03-04-05-2024-01-02-1234.jpg''
   \<and> sanitize_as_specified (strftime (created_at demo_post) ''%Y-%m-%d-%H-%M-%S-%F'' @ ''-'' @
         str_nat (randint 1000 9999 234) @ ''.'' @ last (split_on CHR ''.'' ''a.jpg '')) =
       ''2024-01-02-03-04-05-2024-01-02-1234.jpg_''"
  unfolding generate_image_filename_def Let_def demo_post_eval demo_ext_eval
  by (simp add: get_valid_filename_def sanitize_as_specified_def strip_def lstrip_def rstrip_def
      py_isspace_def valid_char_def)


end
